theory Spec2Isabelle
  imports Complex_Main
begin

section \<open>Data model\<close>

text \<open>
  Speech tokens are integer ids. The decoder of \<^verbatim>\<open>speaker_server.py\<close> works on
  tensors of shape \<^verbatim>\<open>[1, 1]\<close> (it reads the sampled token with \<^verbatim>\<open>.item()\<close>), so a
  token tensor is modelled by the integer it holds and the list
  \<^verbatim>\<open>generated_speech_tokens\<close> by a list of integers.
\<close>

type_synonym token = int

text \<open>A Python exception, carrying the message that \<^verbatim>\<open>str(e)\<close> returns.\<close>

datatype error = Exception string


text \<open>
  The four logits processors of the \<^verbatim>\<open>transformers\<close> library that the decoder
  instantiates, each with the parameter its constructor receives.
\<close>

datatype processor =
    TemperatureLogitsWarper real
  | TopKLogitsWarper int
  | TopPLogitsWarper real
  | RepetitionPenaltyLogitsProcessor real

text \<open>
  The keyword parameters of \<^verbatim>\<open>t3_inference_turbo_optimized\<close>. The floats are
  modelled as reals: the code only compares them with \<^verbatim>\<open>0\<close> and \<^verbatim>\<open>1.0\<close>
  (a NaN parameter is outside the model).
\<close>

record sampling_config =
  temperature :: real
  top_k :: int
  top_p :: real
  repetition_penalty :: real
  max_gen_len :: int

text \<open>The default values of the keyword parameters.\<close>

definition default_config :: sampling_config where
  "default_config =
     \<lparr>temperature = 1 / 10, top_k = 50, top_p = 95 / 100,
      repetition_penalty = 12 / 10, max_gen_len = 1500\<rparr>"

text \<open>
  Everything the decoder calls but does not define: the hyper-parameters
  \<^verbatim>\<open>self.hp\<close>, the constructors and the application of the logits processors,
  the model's forward passes and the samplers. The forward passes and the
  multinomial draw read and change state the decoder does not see (the random
  generator, the device, a test double's call counter): that state is \<open>'s\<close>,
  passed in and returned. \<open>'c\<close> is the attention cache \<^verbatim>\<open>past_key_values\<close>,
  \<open>'l\<close> a logit vector.

  \<^item> \<open>construct p\<close> is the constructor of processor \<open>p\<close>: \<open>Some e\<close> when it raises.
  \<^item> \<open>prefill\<close> is \<^verbatim>\<open>prepare_input_embeds\<close>, \<^verbatim>\<open>tfmr\<close> on the prepared embeddings
    and \<^verbatim>\<open>speech_head\<close> on the last position: cache and first logits.
  \<^item> \<open>decode tok pkv\<close> is \<^verbatim>\<open>speech_emb\<close>, \<^verbatim>\<open>tfmr\<close> with the cache and
    \<^verbatim>\<open>speech_head\<close>: new cache and next logits.
  \<^item> \<open>process p ids l\<close> is the call of one processor on \<^verbatim>\<open>(input_ids, scores)\<close>.
  \<^item> \<open>multinomial l\<close> is one draw from \<^verbatim>\<open>softmax(l)\<close>.
  \<^item> \<open>argmax l\<close> is \<^verbatim>\<open>torch.argmax\<close>.
\<close>

record ('s, 'c, 'l) t3 =
  start_speech_token :: token
  stop_speech_token :: token
  construct :: "processor \<Rightarrow> error option"
  prefill :: "'s \<Rightarrow> (error + 'c \<times> 'l) \<times> 's"
  decode :: "token \<Rightarrow> 'c \<Rightarrow> 's \<Rightarrow> (error + 'c \<times> 'l) \<times> 's"
  process :: "processor \<Rightarrow> token list \<Rightarrow> 'l \<Rightarrow> 'l"
  multinomial :: "'l \<Rightarrow> 's \<Rightarrow> (error + token) \<times> 's"
  argmax :: "'l \<Rightarrow> token"

section \<open>The logits processors of the decoder\<close>

text \<open>
  Lines 42 to 50 of \<^verbatim>\<open>speaker_server.py\<close>: the processors appended to the
  \<^verbatim>\<open>LogitsProcessorList\<close>, in the order of the four \<^verbatim>\<open>if\<close> statements.
\<close>

definition logits_processors :: "sampling_config \<Rightarrow> processor list" where
  "logits_processors cfg =
     (let ps = [];
          ps = (if temperature cfg > 0 \<and> temperature cfg \<noteq> 1
                then ps @ [TemperatureLogitsWarper (temperature cfg)] else ps);
          ps = (if top_k cfg > 0
                then ps @ [TopKLogitsWarper (top_k cfg)] else ps);
          ps = (if top_p cfg < 1
                then ps @ [TopPLogitsWarper (top_p cfg)] else ps);
          ps = (if repetition_penalty cfg \<noteq> 1
                then ps @ [RepetitionPenaltyLogitsProcessor (repetition_penalty cfg)] else ps)
      in ps)"

text \<open>
  The constructors run in the order of the list; the first one that raises ends
  the call.
\<close>

fun first_error :: "(processor \<Rightarrow> error option) \<Rightarrow> processor list \<Rightarrow> error option" where
  "first_error c [] = None"
| "first_error c (p # ps) = (case c p of Some e \<Rightarrow> Some e | None \<Rightarrow> first_error c ps)"

text \<open>
  \<^verbatim>\<open>LogitsProcessorList.__call__(input_ids, scores)\<close>: every processor of the list
  is called on the scores the previous one returned, first to last.
\<close>

definition apply_processors ::
  "('s, 'c, 'l) t3 \<Rightarrow> processor list \<Rightarrow> token list \<Rightarrow> 'l \<Rightarrow> 'l" where
  "apply_processors M ps input_ids scores = foldl (\<lambda>l p. process M p input_ids l) scores ps"

section \<open>The decoder loop of the server\<close>

text \<open>
  One pass through the body of the \<^verbatim>\<open>for\<close> loop (lines 70 to 85): it either
  raises, breaks on the stop token, or goes on with the token appended.
\<close>

datatype 'c flow = Break | Continue "token list" token 'c

definition loop_body ::
  "('s, 'c, 'l) t3 \<Rightarrow> processor list \<Rightarrow> token list \<Rightarrow> token \<Rightarrow> 'c \<Rightarrow> 's
     \<Rightarrow> (error + 'c flow) \<times> 's" where
  "loop_body M ps generated_speech_tokens current_speech_token past_key_values s =
     (case decode M current_speech_token past_key_values s of
        (Inl e, s1) \<Rightarrow> (Inl e, s1)
      | (Inr (past_key_values', speech_logits), s1) \<Rightarrow>
          (case multinomial M
                  (apply_processors M ps generated_speech_tokens speech_logits) s1 of
             (Inl e, s2) \<Rightarrow> (Inl e, s2)
           | (Inr next_speech_token, s2) \<Rightarrow>
               if next_speech_token = stop_speech_token M then (Inr Break, s2)
               else (Inr (Continue (generated_speech_tokens @ [next_speech_token])
                            next_speech_token past_key_values'), s2)))"

text \<open>
  \<^verbatim>\<open>for i in range(max_gen_len)\<close>: the first argument counts the passes left.
  Both the \<^verbatim>\<open>break\<close> and the exhausted range fall through to the
  \<^verbatim>\<open>return\<close> of line 91.
\<close>

fun decode_loop ::
  "('s, 'c, 'l) t3 \<Rightarrow> processor list \<Rightarrow> nat \<Rightarrow> token list \<Rightarrow> token \<Rightarrow> 'c \<Rightarrow> 's
     \<Rightarrow> (error + token list) \<times> 's" where
  "decode_loop M ps 0 generated_speech_tokens current_speech_token past_key_values s =
     (Inr generated_speech_tokens, s)"
| "decode_loop M ps (Suc n) generated_speech_tokens current_speech_token past_key_values s =
     (case loop_body M ps generated_speech_tokens current_speech_token past_key_values s of
        (Inl e, s1) \<Rightarrow> (Inl e, s1)
      | (Inr Break, s1) \<Rightarrow> (Inr generated_speech_tokens, s1)
      | (Inr (Continue generated' current' past'), s1) \<Rightarrow>
          decode_loop M ps n generated' current' past' s1)"

text \<open>
  The state of the loop at the start of pass number \<open>k\<close> (counted from 0), when
  none of the passes before it raised or broke.
\<close>

fun iterations ::
  "('s, 'c, 'l) t3 \<Rightarrow> processor list \<Rightarrow> nat \<Rightarrow> token list \<Rightarrow> token \<Rightarrow> 'c \<Rightarrow> 's
     \<Rightarrow> (token list \<times> token \<times> 'c \<times> 's) option" where
  "iterations M ps 0 generated current past s = Some (generated, current, past, s)"
| "iterations M ps (Suc k) generated current past s =
     (case loop_body M ps generated current past s of
        (Inr (Continue generated' current' past'), s1) \<Rightarrow>
          iterations M ps k generated' current' past' s1
      | _ \<Rightarrow> None)"

text \<open>
  \<^verbatim>\<open>t3_inference_turbo_optimized\<close> (lines 36 to 91): build the processors,
  prefill, sample and append the first token, then run the loop
  \<^verbatim>\<open>max_gen_len\<close> times (\<^verbatim>\<open>range\<close> of a negative number is empty).
\<close>

definition t3_inference_turbo_optimized ::
  "('s, 'c, 'l) t3 \<Rightarrow> sampling_config \<Rightarrow> 's \<Rightarrow> (error + token list) \<times> 's" where
  "t3_inference_turbo_optimized M cfg s =
     (case first_error (construct M) (logits_processors cfg) of
        Some e \<Rightarrow> (Inl e, s)
      | None \<Rightarrow>
          (case prefill M s of
             (Inl e, s1) \<Rightarrow> (Inl e, s1)
           | (Inr (past_key_values, speech_logits), s1) \<Rightarrow>
               (case multinomial M
                       (apply_processors M (logits_processors cfg)
                          [start_speech_token M] speech_logits) s1 of
                  (Inl e, s2) \<Rightarrow> (Inl e, s2)
                | (Inr next_speech_token, s2) \<Rightarrow>
                    decode_loop M (logits_processors cfg) (nat (max_gen_len cfg))
                      [next_speech_token] next_speech_token past_key_values s2)))"

section \<open>The arg-max variant of the debugging script\<close>

text \<open>
  The loop of \<^verbatim>\<open>debug_python_tokens.py\<close> (lines 40 to 54). It takes the
  arg-max of the processed logits, prints it (\<open>printed\<close> collects the tokens of
  the lines \<^verbatim>\<open>Step i: token=...\<close>), checks it against the stop token before
  appending it, and only then runs the next forward pass.
\<close>

fun debug_loop ::
  "('s, 'c, 'l) t3 \<Rightarrow> processor list \<Rightarrow> nat \<Rightarrow> token list \<Rightarrow> token list \<Rightarrow> 'c \<Rightarrow> 'l \<Rightarrow> 's
     \<Rightarrow> (error + token list) \<times> token list \<times> 's" where
  "debug_loop M ps 0 speech_tokens printed past_key_values logits s =
     (Inr speech_tokens, printed, s)"
| "debug_loop M ps (Suc n) speech_tokens printed past_key_values logits s =
     (let next_token = argmax M (apply_processors M ps speech_tokens logits);
          printed' = printed @ [next_token]
      in if next_token = stop_speech_token M then (Inr speech_tokens, printed', s)
         else
           (case decode M next_token past_key_values s of
              (Inl e, s1) \<Rightarrow> (Inl e, printed', s1)
            | (Inr (past_key_values', logits'), s1) \<Rightarrow>
                debug_loop M ps n (speech_tokens @ [next_token]) printed'
                  past_key_values' logits' s1))"

text \<open>
  The script: one repetition penalty processor with penalty 1.2 (line 25), the
  sequence seeded with the start token (line 27), the prefill (lines 35 to 38,
  for which \<open>prefill\<close> stands here) and twenty passes of the loop. The result is the final \<^verbatim>\<open>speech_tokens\<close> (or
  the exception that ended the script) and the tokens printed.
\<close>

definition debug_python_tokens ::
  "('s, 'c, 'l) t3 \<Rightarrow> 's \<Rightarrow> (error + token list) \<times> token list \<times> 's" where
  "debug_python_tokens M s =
     (case construct M (RepetitionPenaltyLogitsProcessor (12 / 10)) of
        Some e \<Rightarrow> (Inl e, [], s)
      | None \<Rightarrow>
          (case prefill M s of
             (Inl e, s1) \<Rightarrow> (Inl e, [], s1)
           | (Inr (past_key_values, logits), s1) \<Rightarrow>
               debug_loop M [RepetitionPenaltyLogitsProcessor (12 / 10)] 20
                 [start_speech_token M] [] past_key_values logits s1))"

text \<open>
  An oracle is deterministic when the cache and the logits its forward passes
  return do not depend on the hidden state.
\<close>

definition deterministic_oracle :: "('s, 'c, 'l) t3 \<Rightarrow> bool" where
  "deterministic_oracle M \<longleftrightarrow>
     (\<forall>s s'. fst (prefill M s) = fst (prefill M s')) \<and>
     (\<forall>tok pkv s s'. fst (decode M tok pkv s) = fst (decode M tok pkv s'))"

section \<open>The stdin/stdout server\<close>














section \<open>Test doubles\<close>

text \<open>
  A scripted model for concrete runs. The hidden state is the number of forward
  passes run so far; a logit vector is represented by the token it peaks on,
  which the sampler and the arg-max both return; the processors leave the peak
  where it is; no constructor raises. \<open>peak n\<close> is the peak of the logits that
  forward pass number \<open>n\<close> returns.
\<close>

definition scripted_t3 :: "(nat \<Rightarrow> token) \<Rightarrow> (nat, unit, token) t3" where
  "scripted_t3 peak =
     \<lparr>start_speech_token = 6561, stop_speech_token = 6562,
      construct = (\<lambda>p. None),
      prefill = (\<lambda>s. (Inr ((), peak s), Suc s)),
      decode = (\<lambda>tok pkv s. (Inr ((), peak s), Suc s)),
      process = (\<lambda>p ids l. l),
      multinomial = (\<lambda>l s. (Inr l, s)),
      argmax = (\<lambda>l. l)\<rparr>"

text \<open>The logits always peak on the stop token.\<close>

definition stop_at_once_t3 :: "(nat, unit, token) t3" where
  "stop_at_once_t3 = scripted_t3 (\<lambda>n. 6562)"

text \<open>The logits always peak on token 7, never on the stop token.\<close>

definition never_stop_t3 :: "(nat, unit, token) t3" where
  "never_stop_t3 = scripted_t3 (\<lambda>n. 7)"

text \<open>As \<open>never_stop_t3\<close>, but the third forward pass raises.\<close>

definition failing_t3 :: "(nat, unit, token) t3" where
  "failing_t3 =
     (scripted_t3 (\<lambda>n. 7))
       \<lparr>decode := (\<lambda>tok pkv s.
          if s = 2 then (Inl (Exception ''out of memory''), Suc s)
          else (Inr ((), 7), Suc s))\<rparr>"

text \<open>As \<open>never_stop_t3\<close>, but the prefill raises.\<close>

definition failing_prefill_t3 :: "(nat, unit, token) t3" where
  "failing_prefill_t3 =
     (scripted_t3 (\<lambda>n. 7))
       \<lparr>prefill := (\<lambda>s. (Inl (Exception ''out of memory''), Suc s))\<rparr>"

text \<open>
  A model whose logit vector is the log of the processors applied to it, in the
  order of application.
\<close>

definition tracing_t3 :: "(nat, unit, processor list) t3" where
  "tracing_t3 =
     \<lparr>start_speech_token = 6561, stop_speech_token = 6562,
      construct = (\<lambda>p. None),
      prefill = (\<lambda>s. (Inr ((), []), Suc s)),
      decode = (\<lambda>tok pkv s. (Inr ((), []), Suc s)),
      process = (\<lambda>p ids l. l @ [p]),
      multinomial = (\<lambda>l s. (Inr 7, s)),
      argmax = (\<lambda>l. 7)\<rparr>"

text \<open>Configurations for concrete runs.\<close>

definition zero_temperature_config :: sampling_config where
  "zero_temperature_config = default_config\<lparr>temperature := 0, max_gen_len := 2\<rparr>"

definition five_steps_config :: sampling_config where
  "five_steps_config = default_config\<lparr>max_gen_len := 5\<rparr>"

definition all_disabled_config :: sampling_config where
  "all_disabled_config =
     \<lparr>temperature = 1, top_k = 0, top_p = 1, repetition_penalty = 1, max_gen_len = 5\<rparr>"

definition two_steps_config :: sampling_config where
  "two_steps_config = default_config\<lparr>max_gen_len := 2\<rparr>"

definition negative_top_k_config :: sampling_config where
  "negative_top_k_config = default_config\<lparr>top_k := - 1, max_gen_len := 2\<rparr>"

definition large_top_p_config :: sampling_config where
  "large_top_p_config = default_config\<lparr>top_p := 2, max_gen_len := 2\<rparr>"

definition negative_top_p_config :: sampling_config where
  "negative_top_p_config = default_config\<lparr>top_p := - 1, max_gen_len := 2\<rparr>"

text \<open>
  As \<open>never_stop_t3\<close>, with a nucleus constructor that raises on a threshold
  outside the unit interval.
\<close>

definition validating_t3 :: "(nat, unit, token) t3" where
  "validating_t3 =
     (scripted_t3 (\<lambda>n. 7))
       \<lparr>construct := (\<lambda>p. case p of
          TopPLogitsWarper x \<Rightarrow>
            if x < 0 \<or> 1 < x then Some (Exception ''top_p out of range'') else None
        | _ \<Rightarrow> None)\<rparr>"





section \<open>Facts about the processors\<close>

lemma logits_processors_stages:
  "logits_processors cfg =
     (if temperature cfg > 0 \<and> temperature cfg \<noteq> 1
      then [TemperatureLogitsWarper (temperature cfg)] else [])
     @ (if top_k cfg > 0 then [TopKLogitsWarper (top_k cfg)] else [])
     @ (if top_p cfg < 1 then [TopPLogitsWarper (top_p cfg)] else [])
     @ (if repetition_penalty cfg \<noteq> 1
        then [RepetitionPenaltyLogitsProcessor (repetition_penalty cfg)] else [])"
  by (simp add: logits_processors_def Let_def)

lemma t3_inference_same_processors:
  assumes "logits_processors cfg' = logits_processors cfg"
    and "max_gen_len cfg' = max_gen_len cfg"
  shows "t3_inference_turbo_optimized M cfg' s = t3_inference_turbo_optimized M cfg s"
  unfolding t3_inference_turbo_optimized_def assms by (rule refl)

section \<open>Facts about the decoder loop\<close>

lemma loop_body_cases:
  "loop_body M ps gen cur pkv s = (r, s') \<Longrightarrow>
     (\<exists>e. r = Inl e) \<or> r = Inr Break \<or>
     (\<exists>tok pkv'. r = Inr (Continue (gen @ [tok]) tok pkv') \<and> tok \<noteq> stop_speech_token M)"
  by (auto simp: loop_body_def split: prod.splits sum.splits if_splits)

text \<open>
  What the loop does guarantee: it only appends, never the stop token, and at
  most one token for each pass.
\<close>

lemma decode_loop_tokens:
  "decode_loop M ps n gen cur pkv s = (Inr toks, s') \<Longrightarrow>
     \<exists>new. toks = gen @ new \<and> stop_speech_token M \<notin> set new \<and> length new \<le> n"
proof (induction n arbitrary: gen cur pkv s)
  case 0
  then show ?case by simp
next
  case (Suc n)
  obtain r s1 where body: "loop_body M ps gen cur pkv s = (r, s1)"
    by (cases "loop_body M ps gen cur pkv s")
  from loop_body_cases [OF body] consider
      e where "r = Inl e"
    | "r = Inr Break"
    | tok pkv' where "r = Inr (Continue (gen @ [tok]) tok pkv')" "tok \<noteq> stop_speech_token M"
    by blast
  then show ?case
  proof cases
    case 1
    with Suc.prems body show ?thesis by simp
  next
    case 2
    with Suc.prems body show ?thesis by simp
  next
    case 3
    with Suc.prems body have "decode_loop M ps n (gen @ [tok]) tok pkv' s1 = (Inr toks, s')"
      by simp
    from Suc.IH [OF this] obtain new where
      "toks = (gen @ [tok]) @ new" "stop_speech_token M \<notin> set new" "length new \<le> n"
      by blast
    with 3 have "toks = gen @ (tok # new) \<and> stop_speech_token M \<notin> set (tok # new)
        \<and> length (tok # new) \<le> Suc n"
      by simp
    then show ?thesis by blast
  qed
qed

text \<open>
  For the whole call: the sequence returned has the first token, which nothing
  checks, and after it at most \<^verbatim>\<open>max_gen_len\<close> tokens, none of them the stop
  token.
\<close>

lemma t3_inference_tokens:
  assumes "t3_inference_turbo_optimized M cfg s = (Inr toks, s')"
  shows "toks \<noteq> [] \<and> stop_speech_token M \<notin> set (tl toks)
           \<and> length toks \<le> nat (max_gen_len cfg) + 1"
proof -
  from assms obtain tok pkv s2 where
    "decode_loop M (logits_processors cfg) (nat (max_gen_len cfg)) [tok] tok pkv s2
       = (Inr toks, s')"
    by (auto simp: t3_inference_turbo_optimized_def split: option.splits prod.splits sum.splits)
  from decode_loop_tokens [OF this] show ?thesis by auto
qed

text \<open>When the sampler never draws the stop token, every pass appends.\<close>

lemma decode_loop_full_length:
  assumes never: "\<And>l s. fst (multinomial M l s) \<noteq> Inr (stop_speech_token M)"
  shows "decode_loop M ps n gen cur pkv s = (Inr toks, s') \<Longrightarrow> length toks = length gen + n"
proof (induction n arbitrary: gen cur pkv s)
  case 0
  then show ?case by simp
next
  case (Suc n)
  obtain r s1 where body: "loop_body M ps gen cur pkv s = (r, s1)"
    by (cases "loop_body M ps gen cur pkv s")
  have "r \<noteq> Inr Break"
  proof
    assume "r = Inr Break"
    with body obtain l s0 where "multinomial M l s0 = (Inr (stop_speech_token M), s1)"
      by (auto simp: loop_body_def split: prod.splits sum.splits if_splits)
    with never [of l s0] show False by simp
  qed
  with loop_body_cases [OF body] consider
      e where "r = Inl e"
    | tok pkv' where "r = Inr (Continue (gen @ [tok]) tok pkv')"
    by blast
  then show ?case
  proof cases
    case 1
    with Suc.prems body show ?thesis by simp
  next
    case 2
    with Suc.prems body have "decode_loop M ps n (gen @ [tok]) tok pkv' s1 = (Inr toks, s')"
      by simp
    from Suc.IH [OF this] show ?thesis by simp
  qed
qed

text \<open>
  The token sampled from the prefill logits is the head of the sequence
  returned, whatever it is; and a sampler that never draws the stop token gives
  a sequence of \<^verbatim>\<open>max_gen_len + 1\<close> tokens.
\<close>

lemma first_sample_returned:
  assumes "first_error (construct M) (logits_processors cfg) = None"
    and "prefill M s = (Inr (pkv, l), s1)"
    and "multinomial M (apply_processors M (logits_processors cfg)
           [start_speech_token M] l) s1 = (Inr tok, s2)"
    and "t3_inference_turbo_optimized M cfg s = (Inr toks, s')"
  shows "toks \<noteq> [] \<and> hd toks = tok"
proof -
  from assms have
    "decode_loop M (logits_processors cfg) (nat (max_gen_len cfg)) [tok] tok pkv s2
       = (Inr toks, s')"
    by (simp add: t3_inference_turbo_optimized_def)
  from decode_loop_tokens [OF this] show ?thesis by auto
qed

lemma t3_inference_full_length:
  assumes "\<And>l s. fst (multinomial M l s) \<noteq> Inr (stop_speech_token M)"
    and "t3_inference_turbo_optimized M cfg s = (Inr toks, s')"
  shows "length toks = nat (max_gen_len cfg) + 1"
proof -
  from assms(2) obtain tok pkv s2 where
    "decode_loop M (logits_processors cfg) (nat (max_gen_len cfg)) [tok] tok pkv s2
       = (Inr toks, s')"
    by (auto simp: t3_inference_turbo_optimized_def split: option.splits prod.splits sum.splits)
  from decode_loop_full_length [OF assms(1) this] show ?thesis by simp
qed

lemma loop_body_decode_raises:
  "decode M cur pkv s = (Inl e, s') \<Longrightarrow> loop_body M ps gen cur pkv s = (Inl e, s')"
  by (simp add: loop_body_def)

text \<open>
  An exception of the forward pass in pass number \<open>k\<close> is the result of the
  whole loop: no later pass runs and nothing catches it.
\<close>

lemma decode_loop_raises:
  "iterations M ps k gen cur pkv s = Some (gen', cur', pkv', s') \<Longrightarrow> k < n \<Longrightarrow>
   decode M cur' pkv' s' = (Inl e, s'') \<Longrightarrow>
   decode_loop M ps n gen cur pkv s = (Inl e, s'')"
proof (induction k arbitrary: n gen cur pkv s)
  case 0
  then obtain m where "n = Suc m" by (cases n) auto
  with 0 show ?case by (simp add: loop_body_decode_raises)
next
  case (Suc k)
  then obtain m where n: "n = Suc m" and km: "k < m" by (cases n) auto
  from Suc.prems(1) obtain g c p s1 where
    body: "loop_body M ps gen cur pkv s = (Inr (Continue g c p), s1)" and
    rest: "iterations M ps k g c p s1 = Some (gen', cur', pkv', s')"
    by (auto split: prod.splits sum.splits flow.splits)
  from Suc.IH [OF rest km Suc.prems(3)] body n show ?case by simp
qed

section \<open>Facts about the arg-max variant\<close>

lemma debug_loop_deterministic:
  assumes det: "deterministic_oracle M"
  shows "fst (debug_loop M ps n toks printed pkv l s)
           = fst (debug_loop M ps n toks printed pkv l s')
       \<and> fst (snd (debug_loop M ps n toks printed pkv l s))
           = fst (snd (debug_loop M ps n toks printed pkv l s'))"
proof (induction n arbitrary: toks printed pkv l s s')
  case 0
  show ?case by simp
next
  case (Suc n)
  let ?t = "argmax M (apply_processors M ps toks l)"
  show ?case
  proof (cases "?t = stop_speech_token M")
    case True
    then show ?thesis by (simp add: Let_def)
  next
    case False
    obtain r s1 where d1: "decode M ?t pkv s = (r, s1)" by (cases "decode M ?t pkv s")
    obtain r' s1' where d2: "decode M ?t pkv s' = (r', s1')" by (cases "decode M ?t pkv s'")
    from det have "fst (decode M ?t pkv s) = fst (decode M ?t pkv s')"
      unfolding deterministic_oracle_def by blast
    with d1 d2 have same: "r' = r" by simp
    show ?thesis
    proof (cases r)
      case (Inl e)
      with False d1 d2 same show ?thesis by (simp add: Let_def)
    next
      case (Inr cl)
      obtain pkv2 l2 where "cl = (pkv2, l2)" by (cases cl)
      with Inr False d1 d2 same
        Suc.IH [of "toks @ [?t]" "printed @ [?t]" pkv2 l2 s1 s1']
      show ?thesis by (simp add: Let_def)
    qed
  qed
qed

text \<open>
  The arg-max loop samples its first token inside the loop and compares every
  token with the stop token before appending it: it appends at most one token
  for each pass and never the stop token.
\<close>

lemma debug_loop_tokens:
  "debug_loop M ps n toks printed pkv l s = (Inr toks', printed', s') \<Longrightarrow>
     \<exists>new. toks' = toks @ new \<and> stop_speech_token M \<notin> set new \<and> length new \<le> n"
proof (induction n arbitrary: toks printed pkv l s)
  case 0
  then show ?case by simp
next
  case (Suc n)
  let ?t = "argmax M (apply_processors M ps toks l)"
  show ?case
  proof (cases "?t = stop_speech_token M")
    case True
    with Suc.prems show ?thesis by (simp add: Let_def)
  next
    case False
    obtain r s1 where d: "decode M ?t pkv s = (r, s1)" by (cases "decode M ?t pkv s")
    show ?thesis
    proof (cases r)
      case (Inl e)
      with False d Suc.prems show ?thesis by (simp add: Let_def)
    next
      case (Inr cl)
      obtain pkv2 l2 where cl: "cl = (pkv2, l2)" by (cases cl)
      with Inr False d Suc.prems
      have "debug_loop M ps n (toks @ [?t]) (printed @ [?t]) pkv2 l2 s1
              = (Inr toks', printed', s')"
        by (simp add: Let_def)
      from Suc.IH [OF this] obtain new where
        "toks' = (toks @ [?t]) @ new" "stop_speech_token M \<notin> set new" "length new \<le> n"
        by blast
      with False have "toks' = toks @ (?t # new) \<and> stop_speech_token M \<notin> set (?t # new)
          \<and> length (?t # new) \<le> Suc n"
        by simp
      then show ?thesis by blast
    qed
  qed
qed

section \<open>Facts about the stdin/stdout server\<close>










section \<open>The claims\<close>

subsection \<open>C1: the stop token in the returned sequence\<close>

text \<open>
  Claim C1 says that the sequence returned by \<^verbatim>\<open>t3_inference_turbo_optimized\<close>
  never contains the stop token. The loop compares every token it samples with
  the stop token before appending it (\<open>decode_loop_tokens\<close>), but the first
  token, sampled from the prefill logits, is appended unchecked. With logits
  that peak on the stop token from the start, the sequence returned is the stop
  token alone.
\<close>

theorem first_token_unchecked:
  "fst (t3_inference_turbo_optimized stop_at_once_t3 default_config 0)
     = Inr [stop_speech_token stop_at_once_t3]"
  by code_simp

subsection \<open>C2: the order of the filters\<close>




subsection \<open>C3: the length of the returned sequence\<close>

text \<open>
  Claim C3 says that the sequence returned has at most \<^verbatim>\<open>max_gen_len\<close> tokens.
  The first token is appended before the loop and the loop then runs
  \<^verbatim>\<open>max_gen_len\<close> times, so the bound the code keeps is one more
  (\<open>t3_inference_tokens\<close>). With \<^verbatim>\<open>max_gen_len = 2\<close> and logits that never
  peak on the stop token, three tokens are returned.
\<close>

theorem one_token_over_max_gen_len:
  "max_gen_len two_steps_config = 2
   \<and> t3_inference_turbo_optimized never_stop_t3 two_steps_config 0 = (Inr [7, 7, 7], 3)"
  by code_simp

subsection \<open>C4: malformed configurations\<close>

text \<open>
  Claim C4 says that a malformed configuration is rejected before the first
  call of the oracle. With temperature 0 the decoder returns three tokens after
  three forward passes.
\<close>

theorem zero_temperature_counterexample:
  "temperature zero_temperature_config \<le> 0
   \<and> t3_inference_turbo_optimized never_stop_t3 zero_temperature_config 0
       = (Inr [7, 7, 7], 3)"
  by code_simp

text \<open>
  Claim C4 as the code has it: a temperature that is not positive, a negative
  \<^verbatim>\<open>top_k\<close> and a \<^verbatim>\<open>top_p\<close> above 1 are not rejected; the processor
  concerned is left out and the call runs as it does with that filter disabled
  (temperature 1, \<^verbatim>\<open>top_k\<close> 0, \<^verbatim>\<open>top_p\<close> 1), forward passes included. The
  only rejection is an exception of a processor's constructor, and it comes
  before any forward pass: the hidden state is returned as it was.
\<close>

theorem malformed_config_not_rejected:
  "(temperature cfg \<le> 0 \<longrightarrow>
      t3_inference_turbo_optimized M cfg s
        = t3_inference_turbo_optimized M (cfg\<lparr>temperature := 1\<rparr>) s)
   \<and> (top_k cfg < 0 \<longrightarrow>
      t3_inference_turbo_optimized M cfg s
        = t3_inference_turbo_optimized M (cfg\<lparr>top_k := 0\<rparr>) s)
   \<and> (1 < top_p cfg \<longrightarrow>
      t3_inference_turbo_optimized M cfg s
        = t3_inference_turbo_optimized M (cfg\<lparr>top_p := 1\<rparr>) s)
   \<and> (first_error (construct M) (logits_processors cfg) = Some e \<longrightarrow>
      t3_inference_turbo_optimized M cfg s = (Inl e, s))"
proof (intro conjI impI)
  assume "temperature cfg \<le> 0"
  then have "logits_processors (cfg\<lparr>temperature := 1\<rparr>) = logits_processors cfg"
    by (simp add: logits_processors_stages)
  then show "t3_inference_turbo_optimized M cfg s
      = t3_inference_turbo_optimized M (cfg\<lparr>temperature := 1\<rparr>) s"
    by (intro t3_inference_same_processors [symmetric]) simp_all
next
  assume "top_k cfg < 0"
  then have "logits_processors (cfg\<lparr>top_k := 0\<rparr>) = logits_processors cfg"
    by (simp add: logits_processors_stages)
  then show "t3_inference_turbo_optimized M cfg s
      = t3_inference_turbo_optimized M (cfg\<lparr>top_k := 0\<rparr>) s"
    by (intro t3_inference_same_processors [symmetric]) simp_all
next
  assume "1 < top_p cfg"
  then have "logits_processors (cfg\<lparr>top_p := 1\<rparr>) = logits_processors cfg"
    by (simp add: logits_processors_stages)
  then show "t3_inference_turbo_optimized M cfg s
      = t3_inference_turbo_optimized M (cfg\<lparr>top_p := 1\<rparr>) s"
    by (intro t3_inference_same_processors [symmetric]) simp_all
next
  assume "first_error (construct M) (logits_processors cfg) = Some e"
  then show "t3_inference_turbo_optimized M cfg s = (Inl e, s)"
    by (simp add: t3_inference_turbo_optimized_def)
qed

text \<open>
  One run for each case: temperature 0, \<^verbatim>\<open>top_k\<close> -1, \<^verbatim>\<open>top_p\<close> 2, and a
  nucleus constructor that raises on \<^verbatim>\<open>top_p\<close> -1.
\<close>

theorem malformed_config_not_rejected_witness:
  "temperature zero_temperature_config \<le> 0
   \<and> t3_inference_turbo_optimized never_stop_t3
        (zero_temperature_config\<lparr>temperature := 1\<rparr>) 0 = (Inr [7, 7, 7], 3)
   \<and> top_k negative_top_k_config < 0
   \<and> t3_inference_turbo_optimized never_stop_t3
        (negative_top_k_config\<lparr>top_k := 0\<rparr>) 0 = (Inr [7, 7, 7], 3)
   \<and> 1 < top_p large_top_p_config
   \<and> t3_inference_turbo_optimized never_stop_t3
        (large_top_p_config\<lparr>top_p := 1\<rparr>) 0 = (Inr [7, 7, 7], 3)
   \<and> first_error (construct validating_t3) (logits_processors negative_top_p_config)
       = Some (Exception ''top_p out of range'')
   \<and> t3_inference_turbo_optimized validating_t3 negative_top_p_config 0
       = (Inl (Exception ''top_p out of range''), 0)"
proof -
  have a: "temperature zero_temperature_config \<le> 0"
    by (simp add: zero_temperature_config_def default_config_def)
  have a': "t3_inference_turbo_optimized never_stop_t3 zero_temperature_config 0
              = (Inr [7, 7, 7], 3)" by code_simp
  have b: "top_k negative_top_k_config < 0"
    by (simp add: negative_top_k_config_def default_config_def)
  have b': "t3_inference_turbo_optimized never_stop_t3 negative_top_k_config 0
              = (Inr [7, 7, 7], 3)" by code_simp
  have c: "1 < top_p large_top_p_config"
    by (simp add: large_top_p_config_def default_config_def)
  have c': "t3_inference_turbo_optimized never_stop_t3 large_top_p_config 0
              = (Inr [7, 7, 7], 3)" by code_simp
  have d: "first_error (construct validating_t3) (logits_processors negative_top_p_config)
             = Some (Exception ''top_p out of range'')"
    by (simp add: negative_top_p_config_def default_config_def logits_processors_stages
        validating_t3_def scripted_t3_def)
  have "t3_inference_turbo_optimized never_stop_t3 zero_temperature_config 0
          = t3_inference_turbo_optimized never_stop_t3
              (zero_temperature_config\<lparr>temperature := 1\<rparr>) 0"
    using malformed_config_not_rejected [of zero_temperature_config never_stop_t3 0] a
    by blast
  then have a'': "t3_inference_turbo_optimized never_stop_t3
      (zero_temperature_config\<lparr>temperature := 1\<rparr>) 0 = (Inr [7, 7, 7], 3)"
    using a' by (rule subst)
  have "t3_inference_turbo_optimized never_stop_t3 negative_top_k_config 0
          = t3_inference_turbo_optimized never_stop_t3
              (negative_top_k_config\<lparr>top_k := 0\<rparr>) 0"
    using malformed_config_not_rejected [of negative_top_k_config never_stop_t3 0] b
    by blast
  then have b'': "t3_inference_turbo_optimized never_stop_t3
      (negative_top_k_config\<lparr>top_k := 0\<rparr>) 0 = (Inr [7, 7, 7], 3)"
    using b' by (rule subst)
  have "t3_inference_turbo_optimized never_stop_t3 large_top_p_config 0
          = t3_inference_turbo_optimized never_stop_t3
              (large_top_p_config\<lparr>top_p := 1\<rparr>) 0"
    using malformed_config_not_rejected [of large_top_p_config never_stop_t3 0] c
    by blast
  then have c'': "t3_inference_turbo_optimized never_stop_t3
      (large_top_p_config\<lparr>top_p := 1\<rparr>) 0 = (Inr [7, 7, 7], 3)"
    using c' by (rule subst)
  have d': "t3_inference_turbo_optimized validating_t3 negative_top_p_config 0
       = (Inl (Exception ''top_p out of range''), 0)"
    using malformed_config_not_rejected [of negative_top_p_config validating_t3 0
         "Exception ''top_p out of range''"] d
    by blast
  from a a'' b b'' c c'' d d' show ?thesis
    by (intro conjI)
qed

subsection \<open>C5: a stop token at the first step\<close>

text \<open>
  Claim C5 says that the decoder returns the empty sequence when the first
  sampled token is the stop token. The first token is appended whatever it is
  (\<open>first_sample_returned\<close>: the sequence returned is never empty); here the
  logits peak on the stop token 6562 and the sequence returned has that one
  element.
\<close>

theorem first_stop_not_empty:
  "t3_inference_turbo_optimized stop_at_once_t3 five_steps_config 0 = (Inr [6562], 2)"
  by code_simp

subsection \<open>C6: five steps without a stop token\<close>

text \<open>
  Claim C6 says that with \<^verbatim>\<open>max_gen_len = 5\<close> and no stop token sampled the
  decoder returns exactly five tokens. It returns normally, with six: the first
  token and one for each of the five passes (\<open>t3_inference_full_length\<close>).
\<close>

theorem five_steps_six_tokens:
  "max_gen_len five_steps_config = 5
   \<and> t3_inference_turbo_optimized never_stop_t3 five_steps_config 0
       = (Inr [7, 7, 7, 7, 7, 7], 6)"
  by code_simp

subsection \<open>C7: disabled filters\<close>

text \<open>
  Claim C7: a disabled filter is left out of the processor list, not added with
  a neutral parameter. With \<^verbatim>\<open>top_k = 0\<close> the list has no top-k warper, with
  \<^verbatim>\<open>top_p = 1.0\<close> no nucleus warper, with \<^verbatim>\<open>repetition_penalty = 1.0\<close> no
  penalty processor, with \<^verbatim>\<open>temperature = 1.0\<close> no temperature warper; with
  all four disabled the list is empty and the logits come out as they went in.
\<close>

theorem disabled_filters_skipped:
  "(top_k cfg = 0 \<longrightarrow> (\<forall>k. TopKLogitsWarper k \<notin> set (logits_processors cfg)))
   \<and> (top_p cfg = 1 \<longrightarrow> (\<forall>p. TopPLogitsWarper p \<notin> set (logits_processors cfg)))
   \<and> (repetition_penalty cfg = 1 \<longrightarrow>
        (\<forall>r. RepetitionPenaltyLogitsProcessor r \<notin> set (logits_processors cfg)))
   \<and> (temperature cfg = 1 \<longrightarrow>
        (\<forall>t. TemperatureLogitsWarper t \<notin> set (logits_processors cfg)))
   \<and> (top_k cfg = 0 \<and> top_p cfg = 1 \<and> repetition_penalty cfg = 1 \<and> temperature cfg = 1 \<longrightarrow>
        logits_processors cfg = [] \<and> apply_processors M (logits_processors cfg) ids l = l)"
  by (simp add: logits_processors_stages apply_processors_def)

text \<open>The configuration with all four filters disabled.\<close>

theorem disabled_filters_skipped_witness:
  "top_k all_disabled_config = 0 \<and> top_p all_disabled_config = 1
   \<and> repetition_penalty all_disabled_config = 1 \<and> temperature all_disabled_config = 1
   \<and> TopKLogitsWarper 0 \<notin> set (logits_processors all_disabled_config)
   \<and> TopPLogitsWarper 1 \<notin> set (logits_processors all_disabled_config)
   \<and> RepetitionPenaltyLogitsProcessor 1 \<notin> set (logits_processors all_disabled_config)
   \<and> TemperatureLogitsWarper 1 \<notin> set (logits_processors all_disabled_config)
   \<and> apply_processors tracing_t3 (logits_processors all_disabled_config) [6561] [] = []"
  using disabled_filters_skipped [of all_disabled_config tracing_t3 "[6561]" "[]"]
  by (simp add: all_disabled_config_def apply_processors_def)

subsection \<open>C8: exceptions of the oracle\<close>

text \<open>
  Claim C8: an exception raised by a forward pass is the result of the call,
  at once and unchanged, and no tokens are returned with it. When no
  constructor raises, an exception of the prefill is the result of the call;
  and when the loop reaches pass number \<open>k\<close> and the forward pass of that pass
  raises, that exception is the result of the call, with the hidden state the
  failing pass left.
\<close>

theorem oracle_failure_propagates:
  assumes "first_error (construct M) (logits_processors cfg) = None"
  shows "(prefill M s = (Inl e, s1) \<longrightarrow>
            t3_inference_turbo_optimized M cfg s = (Inl e, s1))
         \<and> (prefill M s = (Inr (pkv, logits), s1)
            \<and> multinomial M (apply_processors M (logits_processors cfg)
                  [start_speech_token M] logits) s1 = (Inr tok, s2)
            \<and> iterations M (logits_processors cfg) k [tok] tok pkv s2
                  = Some (gen, cur, pkv', s3)
            \<and> k < nat (max_gen_len cfg)
            \<and> decode M cur pkv' s3 = (Inl e, s4) \<longrightarrow>
            t3_inference_turbo_optimized M cfg s = (Inl e, s4))"
  using assms
  by (auto simp: t3_inference_turbo_optimized_def dest: decode_loop_raises)

text \<open>
  A prefill that raises, and a model whose third forward pass raises: the
  second pass of the loop fails after two tokens were generated, and the call
  returns the exception.
\<close>

theorem oracle_failure_propagates_witness:
  "first_error (construct failing_prefill_t3) (logits_processors five_steps_config) = None
   \<and> prefill failing_prefill_t3 0 = (Inl (Exception ''out of memory''), 1)
   \<and> t3_inference_turbo_optimized failing_prefill_t3 five_steps_config 0
       = (Inl (Exception ''out of memory''), 1)
   \<and> first_error (construct failing_t3) (logits_processors five_steps_config) = None
   \<and> prefill failing_t3 0 = (Inr ((), 7), 1)
   \<and> multinomial failing_t3 (apply_processors failing_t3
         (logits_processors five_steps_config) [start_speech_token failing_t3] 7) 1
       = (Inr 7, 1)
   \<and> iterations failing_t3 (logits_processors five_steps_config) 1 [7] 7 () 1
       = Some ([7, 7], 7, (), 2)
   \<and> 1 < nat (max_gen_len five_steps_config)
   \<and> decode failing_t3 7 () 2 = (Inl (Exception ''out of memory''), 3)
   \<and> t3_inference_turbo_optimized failing_t3 five_steps_config 0
       = (Inl (Exception ''out of memory''), 3)"
proof -
  have p: "first_error (construct failing_prefill_t3) (logits_processors five_steps_config)
      = None"
    by code_simp
  have q: "prefill failing_prefill_t3 0 = (Inl (Exception ''out of memory''), 1)"
    by (simp add: failing_prefill_t3_def scripted_t3_def)
  have r: "t3_inference_turbo_optimized failing_prefill_t3 five_steps_config 0
       = (Inl (Exception ''out of memory''), 1)"
    using oracle_failure_propagates [OF p, of 0 "Exception ''out of memory''" 1] q
    by blast
  have a: "first_error (construct failing_t3) (logits_processors five_steps_config) = None"
    by code_simp
  have b: "prefill failing_t3 0 = (Inr ((), 7), 1)"
    by (simp add: failing_t3_def scripted_t3_def)
  have c: "multinomial failing_t3 (apply_processors failing_t3
         (logits_processors five_steps_config) [start_speech_token failing_t3] 7) 1
       = (Inr 7, 1)"
    by code_simp
  have d: "iterations failing_t3 (logits_processors five_steps_config) 1 [7] 7 () 1
       = Some ([7, 7], 7, (), 2)"
    by code_simp
  have f: "1 < nat (max_gen_len five_steps_config)"
    by (simp add: five_steps_config_def default_config_def)
  have g: "decode failing_t3 7 () 2 = (Inl (Exception ''out of memory''), 3)"
    by (simp add: failing_t3_def scripted_t3_def)
  have h: "t3_inference_turbo_optimized failing_t3 five_steps_config 0
       = (Inl (Exception ''out of memory''), 3)"
    using oracle_failure_propagates [OF a, of 0 "Exception ''out of memory''" 1 "()" 7 7 1 1
        "[7, 7]" 7 "()" 2 3] b c d f g
    by blast
  from p q r a b c d f g h show ?thesis by (intro conjI)
qed

subsection \<open>C9: determinism of the arg-max variant\<close>

text \<open>
  Claim C9: two runs of the arg-max variant on the same oracle and the same
  configuration give the same tokens. The loop draws no random number, so with
  an oracle whose forward passes are deterministic the final token sequence
  and the tokens printed are the same from any two hidden states: for the
  script as it is (a fixed repetition penalty of 1.2 and no temperature, top-k
  or top-p processor), and for the loop with any list of processors \<open>ps\<close> and
  any number of passes, the empty list of the configuration with every filter
  disabled among them.
\<close>

theorem arg_max_variant_deterministic:
  assumes "deterministic_oracle M"
  shows "fst (debug_python_tokens M s) = fst (debug_python_tokens M s')
       \<and> fst (snd (debug_python_tokens M s)) = fst (snd (debug_python_tokens M s'))
       \<and> fst (debug_loop M ps n toks printed pkv l s)
           = fst (debug_loop M ps n toks printed pkv l s')
       \<and> fst (snd (debug_loop M ps n toks printed pkv l s))
           = fst (snd (debug_loop M ps n toks printed pkv l s'))"
proof -
  have script: "fst (debug_python_tokens M s) = fst (debug_python_tokens M s')
       \<and> fst (snd (debug_python_tokens M s)) = fst (snd (debug_python_tokens M s'))"
  proof (cases "construct M (RepetitionPenaltyLogitsProcessor (12 / 10))")
    case (Some e)
    then show ?thesis by (simp add: debug_python_tokens_def)
  next
    case None
    obtain r s1 where p1: "prefill M s = (r, s1)" by (cases "prefill M s")
    obtain r' s1' where p2: "prefill M s' = (r', s1')" by (cases "prefill M s'")
    from assms have "fst (prefill M s) = fst (prefill M s')"
      unfolding deterministic_oracle_def by blast
    with p1 p2 have same: "r' = r" by simp
    show ?thesis
    proof (cases r)
      case (Inl e)
      with None p1 p2 same show ?thesis by (simp add: debug_python_tokens_def)
    next
      case (Inr cl)
      obtain pkv0 l0 where "cl = (pkv0, l0)" by (cases cl)
      with Inr None p1 p2 same
        debug_loop_deterministic [OF assms,
          of "[RepetitionPenaltyLogitsProcessor (12 / 10)]" 20 "[start_speech_token M]" "[]"
             pkv0 l0 s1 s1']
      show ?thesis by (simp add: debug_python_tokens_def)
    qed
  qed
  with debug_loop_deterministic [OF assms, of ps n toks printed pkv l s s']
  show ?thesis by blast
qed

text \<open>
  Two runs from different hidden states, of the script and of five passes of
  the loop with every filter disabled: the same tokens, and hidden states that
  still differ at the end.
\<close>

theorem arg_max_variant_deterministic_witness:
  "deterministic_oracle never_stop_t3
   \<and> fst (debug_python_tokens never_stop_t3 0) = fst (debug_python_tokens never_stop_t3 5)
   \<and> fst (snd (debug_python_tokens never_stop_t3 0))
       = fst (snd (debug_python_tokens never_stop_t3 5))
   \<and> snd (snd (debug_python_tokens never_stop_t3 0))
       \<noteq> snd (snd (debug_python_tokens never_stop_t3 5))
   \<and> logits_processors all_disabled_config = []
   \<and> fst (debug_loop never_stop_t3 (logits_processors all_disabled_config) 5
             [6561] [] () 7 0)
       = fst (debug_loop never_stop_t3 (logits_processors all_disabled_config) 5
             [6561] [] () 7 5)
   \<and> fst (debug_loop never_stop_t3 (logits_processors all_disabled_config) 5
             [6561] [] () 7 0) = Inr [6561, 7, 7, 7, 7, 7]"
proof -
  have d: "deterministic_oracle never_stop_t3"
    by (simp add: deterministic_oracle_def never_stop_t3_def scripted_t3_def)
  have "snd (snd (debug_python_tokens never_stop_t3 0)) = 21" by code_simp
  moreover have "snd (snd (debug_python_tokens never_stop_t3 5)) = 26" by code_simp
  ultimately have n: "snd (snd (debug_python_tokens never_stop_t3 0))
       \<noteq> snd (snd (debug_python_tokens never_stop_t3 5))" by simp
  have e: "logits_processors all_disabled_config = []"
    by (simp add: logits_processors_stages all_disabled_config_def)
  have f: "fst (debug_loop never_stop_t3 (logits_processors all_disabled_config) 5
             [6561] [] () 7 0) = Inr [6561, 7, 7, 7, 7, 7]"
    by code_simp
  from d n e f
    arg_max_variant_deterministic [OF d,
      of 0 5 "logits_processors all_disabled_config" 5 "[6561]" "[]" "()" 7]
  show ?thesis by blast
qed

subsection \<open>C10: the responses of the stdin/stdout server\<close>




end
